theory Spec2Isabelle
  imports Main "HOL-Library.AList" "HOL-Library.Sublist"
begin

section \<open>The trivia API: data model\<close>

text \<open>
  The program is \<^verbatim>\<open>backend/flaskr/__init__.py\<close>: six Flask view functions over two
  tables and the helper \<^verbatim>\<open>paginate_questions\<close>. The tables are modelled as lists of
  rows in table order, a query as a \<open>filter\<close> over the list, a view function as a
  function from the tables and the request to an outcome (and to the new tables when
  the view writes).
\<close>

text \<open>
  A JSON scalar as Python reads it. Python's \<^verbatim>\<open>None\<close> (a missing key read with
  \<^verbatim>\<open>body.get\<close>, or a JSON null) is \<open>None\<close> of \<open>pyval option\<close>. Under Python's
  \<^verbatim>\<open>==\<close> an integer and a string are never equal; that is the equality of this type,
  and it is used for the comparisons that Python makes.
\<close>

datatype pyval = PInt int | PStr string

text \<open>
  Modelled from the spec: the class \<^verbatim>\<open>Category\<close> of \<^verbatim>\<open>models.py\<close>, which the source
  tree does not hold: an integer primary key and the name of the category.
\<close>

record Category =
  category_id :: int
  category_type :: string

text \<open>
  Modelled from the spec: the class \<^verbatim>\<open>Question\<close> of \<^verbatim>\<open>models.py\<close>, which the source
  tree does not hold, with the five fields of the specification's data model. The
  category is kept as the value that was stored: \<^verbatim>\<open>add_question\<close> stores what the
  request body carries, \<^verbatim>\<open>questions_in_a_category\<close> compares it with a string and
  \<^verbatim>\<open>play_quizzes\<close> with the value of the request body. A query that filters on the
  category with a string finds the rows whose stored category is that string; what a
  query that filters with an integer finds is a parameter of the model (see
  \<open>filter_by_category\<close>).
\<close>

record Question =
  question_id :: int
  question :: string
  answer :: string
  category :: pyval
  difficulty :: int

record db =
  categories :: "Category list"
  questions :: "Question list"

text \<open>
  The dictionary a view passes to \<^verbatim>\<open>jsonify\<close> for one question, and the bodies of the
  success responses, one constructor for each shape, without the constant entries
  (\<^verbatim>\<open>'success': True\<close>, \<^verbatim>\<open>'currentCategory': None\<close>):
  \<^item> \<open>Categories_Response categories\<close>;
  \<^item> \<open>Questions_Response questions totalQuestions categories\<close>;
  \<^item> \<open>Search_Response questions totalQuestions\<close>;
  \<^item> \<open>Category_Questions_Response questions totalQuestions currentCategory\<close>;
  \<^item> \<open>Success_Response\<close>, the body \<^verbatim>\<open>{'success': True}\<close>;
  \<^item> \<open>Quiz_Response question\<close>.
\<close>

type_synonym question_dict = "(string \<times> pyval) list"

datatype response =
    Categories_Response "(int \<times> string) list"
  | Questions_Response "question_dict list" nat "(int \<times> string) list"
  | Search_Response "question_dict list" nat
  | Category_Questions_Response "question_dict list" nat string
  | Success_Response
  | Quiz_Response question_dict

text \<open>
  What a view function does: it returns a response, it calls \<^verbatim>\<open>abort(code)\<close>, it falls
  off its end and so returns \<^verbatim>\<open>None\<close> (which Flask refuses as a response), or an
  exception that no handler of the view catches escapes.
\<close>

datatype outcome = Returns response | Abort nat | Returns_None | Raises

section \<open>Storage, as far as the views use it\<close>

text \<open>
  Modelled from the spec: \<^verbatim>\<open>Question.format\<close> of \<^verbatim>\<open>models.py\<close>. Every question
  is serialised as the dictionary of its five fields.
\<close>

definition format :: "Question \<Rightarrow> question_dict" where
  "format q =
     [(''id'', PInt (question_id q)), (''question'', PStr (question q)),
      (''answer'', PStr (answer q)), (''category'', category q),
      (''difficulty'', PInt (difficulty q))]"

text \<open>
  \<^verbatim>\<open>Query.one_or_none()\<close>: no row gives \<^verbatim>\<open>None\<close>, one row gives the row, several
  rows raise \<^verbatim>\<open>MultipleResultsFound\<close> (\<open>Inl ()\<close>).
\<close>

fun one_or_none :: "'a list \<Rightarrow> unit + 'a option" where
  "one_or_none [] = Inr None"
| "one_or_none [x] = Inr (Some x)"
| "one_or_none (x # y # zs) = Inl ()"

text \<open>
  Modelled from the spec: \<^verbatim>\<open>Question.delete\<close> of \<^verbatim>\<open>models.py\<close>. The row is
  removed from the table; a row is identified by its primary key.
\<close>

definition delete :: "Question \<Rightarrow> db \<Rightarrow> db" where
  "delete q d = d\<lparr>questions := filter (\<lambda>r. question_id r \<noteq> question_id q) (questions d)\<rparr>"

text \<open>
  Modelled from the spec: the primary key that the storage gives to a new row, unique
  in the table: one more than the largest key in use.
\<close>

definition fresh_id :: "Question list \<Rightarrow> int" where
  "fresh_id qs = fold max (map question_id qs) 0 + 1"

text \<open>
  Modelled from the spec: the constructor \<^verbatim>\<open>Question(...)\<close> followed by
  \<^verbatim>\<open>Question.insert\<close> of \<^verbatim>\<open>models.py\<close>. The insertion fails (\<open>None\<close>, the
  exception) when a required field is absent or malformed: the question and the answer
  are strings, the difficulty is an integer, the category is present. Otherwise the
  row is appended with a fresh primary key.
\<close>

fun insert_question ::
  "pyval option \<Rightarrow> pyval option \<Rightarrow> pyval option \<Rightarrow> pyval option \<Rightarrow> db \<Rightarrow> db option" where
  "insert_question (Some (PStr q)) (Some (PStr a)) (Some c) (Some (PInt n)) d =
     Some (d\<lparr>questions := questions d @
       [\<lparr>question_id = fresh_id (questions d), question = q, answer = a,
         category = c, difficulty = n\<rparr>]\<rparr>)"
| "insert_question _ _ _ _ d = None"

subsection \<open>The pattern match of \<^verbatim>\<open>ilike\<close>\<close>

text \<open>
  SQL's \<^verbatim>\<open>LIKE\<close>: in the pattern \<^verbatim>\<open>%\<close> stands for any run of characters, \<^verbatim>\<open>_\<close>
  for any one character, and every other character for itself. The escape character is
  not modelled (it differs between database engines); the theorems about searching say
  so where it matters.
\<close>

fun like :: "string \<Rightarrow> string \<Rightarrow> bool" where
  "like [] s = (s = [])"
| "like (p # ps) [] = (p = CHR ''%'' \<and> like ps [])"
| "like (p # ps) (c # cs) =
     (if p = CHR ''%'' then like ps (c # cs) \<or> like (p # ps) cs
      else if p = CHR ''_'' then like ps cs
      else p = c \<and> like ps cs)"

text \<open>
  Lower case of an ASCII letter; every other character is left as it is. How a
  database folds the letters outside ASCII is not modelled: the theorems about
  searching are about ASCII search terms and ASCII question texts only.
\<close>

definition lower_char :: "char \<Rightarrow> char" where
  "lower_char c =
     (let n = (of_char c :: nat) in if 65 \<le> n \<and> n \<le> 90 then char_of (n + 32) else c)"

definition lower :: "string \<Rightarrow> string" where
  "lower s = map lower_char s"

text \<open>\<^verbatim>\<open>column.ilike(pattern)\<close>: \<^verbatim>\<open>LIKE\<close> without regard to case.\<close>

definition ilike :: "string \<Rightarrow> string \<Rightarrow> bool" where
  "ilike s pattern = like (lower pattern) (lower s)"

definition ascii :: "string \<Rightarrow> bool" where
  "ascii s = list_all (\<lambda>c. (of_char c :: nat) < 128) s"

subsection \<open>Python's \<^verbatim>\<open>str\<close> of an integer and slices\<close>

definition digit_char :: "nat \<Rightarrow> char" where
  "digit_char n = ''0123456789'' ! n"

fun str_nat :: "nat \<Rightarrow> string" where
  "str_nat n = (if n < 10 then [digit_char n] else str_nat (n div 10) @ [digit_char (n mod 10)])"

definition str :: "int \<Rightarrow> string" where
  "str i = (if i < 0 then CHR ''-'' # str_nat (nat (- i)) else str_nat (nat i))"

text \<open>
  \<^verbatim>\<open>xs[start:end]\<close>: a negative bound counts from the end, and both bounds are clipped
  to the list; the slice is empty when the clipped end is not after the clipped start.
\<close>

definition py_slice :: "'a list \<Rightarrow> int \<Rightarrow> int \<Rightarrow> 'a list" where
  "py_slice xs start end =
     (let n = int (length xs);
          s = (if start < 0 then max (start + n) 0 else min start n);
          e = (if end < 0 then max (end + n) 0 else min end n)
      in take (nat (e - s)) (drop (nat s) xs))"

section \<open>The view functions\<close>

definition QUESTIONS_PER_PAGE :: int where
  "QUESTIONS_PER_PAGE = 10"

text \<open>
  \<^verbatim>\<open>request.args.get('page', 1, type=int)\<close>: the page of the query string, and 1 when
  there is none or it is not an integer (\<open>None\<close>).
\<close>

definition get_page :: "int option \<Rightarrow> int" where
  "get_page arg = (case arg of None \<Rightarrow> 1 | Some p \<Rightarrow> p)"

definition paginate_questions :: "int option \<Rightarrow> Question list \<Rightarrow> question_dict list" where
  "paginate_questions request selection =
     (let page = get_page request;
          start = (page - 1) * QUESTIONS_PER_PAGE;
          end = start + QUESTIONS_PER_PAGE;
          questions = map format selection
      in py_slice questions start end)"

text \<open>The loop that fills \<^verbatim>\<open>categoriesDict\<close>: a later row overwrites an equal key.\<close>

definition categories_dict :: "Category list \<Rightarrow> (int \<times> string) list" where
  "categories_dict cs = fold (\<lambda>c d. AList.update (category_id c) (category_type c) d) cs []"

text \<open>
  \<^verbatim>\<open>Query.all()\<close> returns the list of the rows, the empty list when there is none,
  and never \<^verbatim>\<open>None\<close>; \<^verbatim>\<open>get_categories\<close> tests its result against \<^verbatim>\<open>None\<close>.
\<close>

definition query_all :: "'a list \<Rightarrow> 'a list option" where
  "query_all rows = Some rows"

definition get_categories :: "db \<Rightarrow> outcome" where
  "get_categories d =
     (case query_all (categories d) of
        None \<Rightarrow> Abort 404
      | Some cats \<Rightarrow> Returns (Categories_Response (categories_dict cats)))"

definition get_questions :: "db \<Rightarrow> int option \<Rightarrow> outcome" where
  "get_questions d request =
     (let selection = sort_key question_id (questions d);
          totalQuestions = length selection;
          currentQuestions = paginate_questions request selection
      in if length currentQuestions = 0 then Abort 404
         else Returns (Questions_Response currentQuestions totalQuestions
                (categories_dict (sort_key category_id (categories d)))))"

text \<open>\<^verbatim>\<open>Question.query.filter_by(id=id).one_or_none()\<close>\<close>

definition question_by_id :: "db \<Rightarrow> int \<Rightarrow> unit + Question option" where
  "question_by_id d i = one_or_none (filter (\<lambda>q. question_id q = i) (questions d))"

definition delete_a_question :: "db \<Rightarrow> int \<Rightarrow> outcome \<times> db" where
  "delete_a_question d i =
     (case question_by_id d i of
        Inl _ \<Rightarrow> (Raises, d)
      | Inr None \<Rightarrow> (Abort 404, d)
      | Inr (Some q) \<Rightarrow> (Returns Success_Response, delete q d))"

text \<open>The body of \<^verbatim>\<open>POST /questions\<close>, read with \<^verbatim>\<open>body.get(key, None)\<close>.\<close>

record add_question_body =
  newQuestion :: "pyval option"
  newAnswer :: "pyval option"
  newCategory :: "pyval option"
  newDifficulty :: "pyval option"
  search_term :: "pyval option"

text \<open>Python's truth value of what \<^verbatim>\<open>body.get\<close> returned.\<close>

fun truthy :: "pyval option \<Rightarrow> bool" where
  "truthy None = False"
| "truthy (Some (PInt n)) = (n \<noteq> 0)"
| "truthy (Some (PStr s)) = (s \<noteq> [])"

text \<open>
  \<^verbatim>\<open>add_question\<close>. With a search term that is not a string, \<^verbatim>\<open>'%'+search_term+'%'\<close>
  raises outside the \<^verbatim>\<open>try\<close>. On the other branch every exception of the insertion
  becomes \<^verbatim>\<open>abort(422)\<close>. The search is
  \<^verbatim>\<open>Question.query.filter(Question.question.ilike('%'+search_term+'%')).all()\<close>.
\<close>

definition matching_questions :: "db \<Rightarrow> string \<Rightarrow> Question list" where
  "matching_questions d s =
     filter (\<lambda>q. ilike (question q) (CHR ''%'' # s @ [CHR ''%''])) (questions d)"

definition add_question :: "db \<Rightarrow> int option \<Rightarrow> add_question_body \<Rightarrow> outcome \<times> db" where
  "add_question d request body =
     (if truthy (search_term body) then
        (case search_term body of
           Some (PStr s) \<Rightarrow>
             (let qs = matching_questions d s
              in if qs \<noteq> [] then
                   (Returns (Search_Response (paginate_questions request qs) (length qs)), d)
                 else (Abort 404, d))
         | _ \<Rightarrow> (Raises, d))
      else
        (case insert_question (newQuestion body) (newAnswer body) (newCategory body)
                (newDifficulty body) d of
           Some d' \<Rightarrow> (Returns Success_Response, d')
         | None \<Rightarrow> (Abort 422, d)))"

text \<open>\<^verbatim>\<open>Category.query.filter_by(id=id).one_or_none()\<close>\<close>

definition category_by_id :: "db \<Rightarrow> int \<Rightarrow> unit + Category option" where
  "category_by_id d i = one_or_none (filter (\<lambda>c. category_id c = i) (categories d))"

text \<open>\<^verbatim>\<open>Question.query.filter_by(category=str(id)).all()\<close>\<close>

definition questionsInCat :: "db \<Rightarrow> int \<Rightarrow> Question list" where
  "questionsInCat d i = filter (\<lambda>q. category q = PStr (str i)) (questions d)"

definition questions_in_a_category :: "db \<Rightarrow> int option \<Rightarrow> int \<Rightarrow> outcome" where
  "questions_in_a_category d request i =
     (case category_by_id d i of
        Inl _ \<Rightarrow> Raises
      | Inr None \<Rightarrow> Abort 404
      | Inr (Some cat) \<Rightarrow>
          (let currentQuestions = paginate_questions request (questionsInCat d i)
           in Returns (Category_Questions_Response currentQuestions
                 (length (questionsInCat d i)) (category_type cat))))"

text \<open>
  The body of \<^verbatim>\<open>POST /quizzes\<close>: \<open>quizCategory\<close> is the \<^verbatim>\<open>id\<close> of the object under
  \<^verbatim>\<open>quiz_category\<close> and \<open>previousQuestion\<close> the list under
  \<^verbatim>\<open>previous_questions\<close>; \<open>None\<close> when the key is missing.
\<close>

record quiz_body =
  quizCategory :: "pyval option"
  previousQuestion :: "int list option"

text \<open>
  \<^verbatim>\<open>Question.query.filter_by(category=quizCategory['id']).all()\<close>. Given a string, the
  query finds the rows whose stored category is that string, as the query of
  \<^verbatim>\<open>questions_in_a_category\<close> does. Given an integer, the result is the database's
  affair, and nothing in the source tree decides it: a database may refuse to compare
  the category column with an integer, and then the query raises, or it may convert
  one side and answer. That query is a parameter of the model, \<open>by_int\<close>: from the
  integer and the rows of the table to the rows found, or to \<open>None\<close> when the query
  raises.
\<close>

type_synonym int_filter = "int \<Rightarrow> Question list \<Rightarrow> Question list option"

fun filter_by_category :: "int_filter \<Rightarrow> pyval \<Rightarrow> Question list \<Rightarrow> Question list option" where
  "filter_by_category by_int (PStr s) rows = Some (filter (\<lambda>q. category q = PStr s) rows)"
| "filter_by_category by_int (PInt n) rows = by_int n rows"

text \<open>
  The questions \<^verbatim>\<open>play_quizzes\<close> draws from (\<^verbatim>\<open>questionsQuery\<close>): the whole table
  when the id is the integer 0, the questions of the category otherwise.
\<close>

definition questionsQuery :: "int_filter \<Rightarrow> db \<Rightarrow> pyval \<Rightarrow> Question list option" where
  "questionsQuery by_int d i =
     (if i = PInt 0 then Some (questions d) else filter_by_category by_int i (questions d))"

text \<open>
  \<^verbatim>\<open>play_quizzes\<close>; \<open>randomIndex\<close> is the value that
  \<^verbatim>\<open>random.randint(0, len(questionsQuery)-1)\<close> returned, so it is below the length of
  the pool. The body of the \<^verbatim>\<open>while\<close> loop ends in \<^verbatim>\<open>return\<close>: the loop runs its
  body once when its condition holds at entry, and is skipped otherwise, after which
  the view has no statement left and returns \<^verbatim>\<open>None\<close>.
\<close>

definition play_quizzes :: "int_filter \<Rightarrow> db \<Rightarrow> quiz_body \<Rightarrow> nat \<Rightarrow> outcome" where
  "play_quizzes by_int d body randomIndex =
     (case quizCategory body of
        None \<Rightarrow> Raises
      | Some i \<Rightarrow>
          (case questionsQuery by_int d i of
             None \<Rightarrow> Raises
           | Some pool \<Rightarrow>
               if length pool = 0 then Abort 404
               else if length pool \<le> randomIndex then Raises
               else
                 (let questionToPlay = pool ! randomIndex
                  in case previousQuestion body of
                       None \<Rightarrow> Raises
                     | Some previous \<Rightarrow>
                         if question_id questionToPlay \<notin> set previous
                         then Returns (Quiz_Response (format (pool ! randomIndex)))
                         else Returns_None)))"

section \<open>Sample data\<close>

text \<open>
  One category, \<open>Science\<close> with id 1, and one question per given id, each stored with
  the category \<^verbatim>\<open>'1'\<close>.
\<close>

definition sample_question :: "int \<Rightarrow> Question" where
  "sample_question i =
     \<lparr>question_id = i, question = ''Who invented peanut butter?'',
      answer = ''George Washington Carver'', category = PStr ''1'', difficulty = 2\<rparr>"

definition sample_db :: "int list \<Rightarrow> db" where
  "sample_db ids =
     \<lparr>categories = [\<lparr>category_id = 1, category_type = ''Science''\<rparr>],
      questions = map sample_question ids\<rparr>"



section \<open>Slices and pages\<close>

lemma py_slice_Nil: "py_slice [] start end = []"
  by (simp add: py_slice_def Let_def)

lemma py_slice_page:
  assumes "0 \<le> start"
  shows "py_slice xs start (start + 10) = take 10 (drop (nat start) xs)"
proof (cases "start + 10 \<le> int (length xs)")
  case True
  then have "nat (start + 10 - start) = 10" by simp
  with True assms show ?thesis
    by (simp add: py_slice_def Let_def min_def)
next
  case False
  show ?thesis
  proof (cases "start \<le> int (length xs)")
    case True
    have "length (drop (nat start) xs) \<le> 10" using False assms by simp
    moreover have "length (drop (nat start) xs) \<le> nat (int (length xs) - start)"
      using assms by simp
    ultimately show ?thesis using False True assms
      by (simp add: py_slice_def Let_def min_def)
  next
    case False
    then show ?thesis using assms
      by (simp add: py_slice_def Let_def min_def)
  qed
qed

lemma get_page_slice:
  assumes "1 \<le> get_page request"
  shows "paginate_questions request selection =
         map format (take 10 (drop (nat ((get_page request - 1) * 10)) selection))"
proof -
  have "0 \<le> (get_page request - 1) * 10" using assms by simp
  then have "py_slice (map format selection) ((get_page request - 1) * 10)
       ((get_page request - 1) * 10 + 10) =
     take 10 (drop (nat ((get_page request - 1) * 10)) (map format selection))"
    by (rule py_slice_page)
  then show ?thesis
    by (simp add: paginate_questions_def QUESTIONS_PER_PAGE_def Let_def take_map drop_map)
qed

lemma paginate_questions_slice:
  assumes "1 \<le> page"
  shows "paginate_questions (Some page) selection =
         map format (take 10 (drop (nat ((page - 1) * 10)) selection))"
  using assms get_page_slice [of "Some page" selection] by (simp add: get_page_def)

lemma paginate_questions_Nil: "paginate_questions request [] = []"
  by (simp add: paginate_questions_def Let_def py_slice_Nil)

lemma paginate_questions_past_end:
  assumes "1 \<le> get_page request"
    and "int (length selection) \<le> (get_page request - 1) * 10"
  shows "paginate_questions request selection = []"
proof -
  have "length selection \<le> nat ((get_page request - 1) * 10)"
    using assms by linarith
  then show ?thesis
    using assms(1) by (simp add: get_page_slice)
qed

lemma paginate_questions_empty:
  assumes "selection = [] \<or>
    (1 \<le> get_page request \<and> int (length selection) \<le> (get_page request - 1) * 10)"
  shows "paginate_questions request selection = []"
  using assms paginate_questions_Nil paginate_questions_past_end by blast

lemma pages_shift: "map f [1..<Suc k] = map (\<lambda>i. f (Suc i)) [0..<k]"
proof -
  have "[1..<Suc k] = map Suc [0..<k]"
    by (simp add: map_Suc_upt del: upt_Suc)
  then show ?thesis
    by (simp only: map_map comp_def)
qed

lemma concat_pages_take:
  "concat (map (\<lambda>i. take 10 (drop (i * 10) xs)) [0..<k]) = take (k * 10) xs"
proof (induction k)
  case 0
  show ?case by simp
next
  case (Suc k)
  have "take (Suc k * 10) xs = take (k * 10) xs @ take 10 (drop (k * 10) xs)"
    using take_add [of "k * 10" 10 xs] by (simp add: add.commute)
  with Suc show ?case by simp
qed

text \<open>
  Claim C3. For a page number \<open>page \<ge> 1\<close>, \<open>paginate_questions\<close> returns the
  serialised items \<open>(page - 1) * 10\<close> up to \<open>(page - 1) * 10 + 10\<close> of the selection,
  that is \<open>min 10 (max 0 (N - (page - 1) * 10))\<close> of them, and the pages 1 to
  \<open>ceil (N / 10)\<close> one after the other are the whole selection in its order.
\<close>

theorem paginate_questions_pages:
  "1 \<le> page \<Longrightarrow>
     paginate_questions (Some page) selection =
       map format (take 10 (drop (nat ((page - 1) * 10)) selection)) \<and>
     int (length (paginate_questions (Some page) selection)) =
       min 10 (max 0 (int (length selection) - (page - 1) * 10)) \<and>
     concat (map (\<lambda>p. paginate_questions (Some (int p)) selection)
        [1..<Suc ((length selection + 9) div 10)]) = map format selection"
proof (intro conjI)
  assume p: "1 \<le> page"
  show "paginate_questions (Some page) selection =
       map format (take 10 (drop (nat ((page - 1) * 10)) selection))"
    using p by (rule paginate_questions_slice)
  then show "int (length (paginate_questions (Some page) selection)) =
       min 10 (max 0 (int (length selection) - (page - 1) * 10))"
    using p by (auto simp: min_def max_def)
  let ?k = "(length selection + 9) div 10"
  have "concat (map (\<lambda>p. paginate_questions (Some (int p)) selection) [1..<Suc ?k]) =
        concat (map (\<lambda>i. paginate_questions (Some (int (Suc i))) selection) [0..<?k])"
    by (simp only: pages_shift)
  also have "\<dots> = concat (map (\<lambda>i. map format (take 10 (drop (i * 10) selection))) [0..<?k])"
    by (simp add: paginate_questions_slice nat_mult_distrib)
  also have "\<dots> = map format (concat (map (\<lambda>i. take 10 (drop (i * 10) selection)) [0..<?k]))"
    by (simp add: map_concat comp_def)
  also have "\<dots> = map format (take (?k * 10) selection)"
    by (simp only: concat_pages_take)
  also have "\<dots> = map format selection"
    by simp
  finally show "concat (map (\<lambda>p. paginate_questions (Some (int p)) selection) [1..<Suc ?k]) =
     map format selection" .
qed

theorem paginate_questions_pages_witness:
  "(1::int) \<le> 2 \<and>
   paginate_questions (Some 2) (map sample_question [1, 2, 3, 4, 5, 6, 7, 8, 9, 10, 11, 12]) =
     map format (map sample_question [11, 12]) \<and>
   int (length (paginate_questions (Some 2)
     (map sample_question [1, 2, 3, 4, 5, 6, 7, 8, 9, 10, 11, 12]))) = 2 \<and>
   concat (map (\<lambda>p. paginate_questions (Some (int p))
       (map sample_question [1, 2, 3, 4, 5, 6, 7, 8, 9, 10, 11, 12])) [1..<3]) =
     map format (map sample_question [1, 2, 3, 4, 5, 6, 7, 8, 9, 10, 11, 12])"
  using paginate_questions_pages
    [of 2 "map sample_question [1, 2, 3, 4, 5, 6, 7, 8, 9, 10, 11, 12]"]
  by simp

section \<open>The quiz\<close>

text \<open>
  What \<open>play_quizzes\<close> does with its one draw, whatever the database does with an
  integer id: a question it returns is the drawn one and has not been played, and when
  every question of the pool has been played it returns \<^verbatim>\<open>None\<close>.
\<close>

lemma play_quizzes_returns_unplayed:
  assumes "play_quizzes by_int d body r = Returns (Quiz_Response qd)"
  shows "\<exists>i previous pool q. quizCategory body = Some i \<and>
           previousQuestion body = Some previous \<and> questionsQuery by_int d i = Some pool \<and>
           q \<in> set pool \<and> qd = format q \<and> question_id q \<notin> set previous"
proof -
  from assms obtain i pool previous where
    i: "quizCategory body = Some i" and pool: "questionsQuery by_int d i = Some pool" and
    previous: "previousQuestion body = Some previous" and
    r: "r < length pool" and qd: "qd = format (pool ! r)" and
    unplayed: "question_id (pool ! r) \<notin> set previous"
    by (auto simp: play_quizzes_def Let_def not_le split: option.splits if_splits)
  from r have "pool ! r \<in> set pool" by simp
  with i pool previous qd unplayed show ?thesis by blast
qed

lemma play_quizzes_all_played:
  assumes "quizCategory body = Some i" and "previousQuestion body = Some previous"
    and "questionsQuery by_int d i = Some pool" and "r < length pool"
    and "question_id ` set pool \<subseteq> set previous"
  shows "play_quizzes by_int d body r = Returns_None"
  using assms
  by (auto simp: play_quizzes_def Let_def)

lemma play_quizzes_refused:
  assumes "quizCategory body = Some (PInt n)" and "n \<noteq> 0"
    and "by_int n (questions d) = None"
  shows "play_quizzes by_int d body r = Raises"
  using assms by (simp add: play_quizzes_def questionsQuery_def)

text \<open>
  Claim C1. The quiz never returns a played question, and it returns no question only
  when every question of the pool has been played. On the pool of the questions 1 and
  2, with question 1 played and the draw 0, \<open>play_quizzes\<close> returns \<^verbatim>\<open>None\<close> although
  question 2 has not been played.
\<close>

theorem play_quizzes_draw_of_played:
  "play_quizzes by_int (sample_db [1, 2])
     \<lparr>quizCategory = Some (PInt 0), previousQuestion = Some [1]\<rparr> 0 = Returns_None \<and>
   questionsQuery by_int (sample_db [1, 2]) (PInt 0) =
     Some [sample_question 1, sample_question 2] \<and>
   question_id (sample_question 2) \<notin> set [1]"
  by (simp add: play_quizzes_def questionsQuery_def sample_db_def sample_question_def)

text \<open>
  Claim C2. On the pool of the questions 1, 2 and 3 with 1 and 2 played, the quiz
  returns question 3 for every draw. \<open>play_quizzes\<close> returns question 3 for the draw
  2 only; for the draws 0 and 1 it returns \<^verbatim>\<open>None\<close>.
\<close>

theorem play_quizzes_one_candidate:
  "play_quizzes by_int (sample_db [1, 2, 3])
     \<lparr>quizCategory = Some (PInt 0), previousQuestion = Some [1, 2]\<rparr> 0 = Returns_None \<and>
   play_quizzes by_int (sample_db [1, 2, 3])
     \<lparr>quizCategory = Some (PInt 0), previousQuestion = Some [1, 2]\<rparr> 1 = Returns_None \<and>
   play_quizzes by_int (sample_db [1, 2, 3])
     \<lparr>quizCategory = Some (PInt 0), previousQuestion = Some [1, 2]\<rparr> 2 =
     Returns (Quiz_Response (format (sample_question 3)))"
  by (simp add: play_quizzes_def questionsQuery_def sample_db_def sample_question_def)



section \<open>Categories\<close>

text \<open>
  Claim C4. With no category in the table, listing the categories fails with 404.
  \<open>get_categories\<close> returns a success response with an empty dictionary.
\<close>

theorem get_categories_no_category:
  "get_categories (d\<lparr>categories := []\<rparr>) = Returns (Categories_Response [])"
  by (simp add: get_categories_def query_all_def categories_dict_def)




text \<open>
  Claim C10. For a category id in the table the listing of the category never aborts
  with 404: with no question in the category, or with a page past the end of its
  questions, it returns a success response with an empty list and the number of the
  questions of the category. The listing of all questions aborts with 404 on an empty
  page.
\<close>

theorem questions_in_a_category_no_404:
  "category_by_id d i = Inr (Some cat) \<Longrightarrow>
   (\<exists>qs. questions_in_a_category d request i =
      Returns (Category_Questions_Response qs (length (questionsInCat d i)) (category_type cat))) \<and>
   (questionsInCat d i = [] \<or>
    (1 \<le> get_page request \<and> int (length (questionsInCat d i)) \<le> (get_page request - 1) * 10) \<longrightarrow>
      questions_in_a_category d request i =
        Returns (Category_Questions_Response [] (length (questionsInCat d i)) (category_type cat))) \<and>
   (questions d = [] \<or>
    (1 \<le> get_page request \<and> int (length (questions d)) \<le> (get_page request - 1) * 10) \<longrightarrow>
      get_questions d request = Abort 404)"
proof (intro conjI impI)
  assume cat: "category_by_id d i = Inr (Some cat)"
  then show "\<exists>qs. questions_in_a_category d request i =
      Returns (Category_Questions_Response qs (length (questionsInCat d i)) (category_type cat))"
    by (simp add: questions_in_a_category_def)
  {
    assume "questionsInCat d i = [] \<or>
      (1 \<le> get_page request \<and> int (length (questionsInCat d i)) \<le> (get_page request - 1) * 10)"
    then have "paginate_questions request (questionsInCat d i) = []"
      by (rule paginate_questions_empty)
    with cat show "questions_in_a_category d request i =
        Returns (Category_Questions_Response [] (length (questionsInCat d i)) (category_type cat))"
      by (simp add: questions_in_a_category_def)
  }
  {
    assume "questions d = [] \<or>
      (1 \<le> get_page request \<and> int (length (questions d)) \<le> (get_page request - 1) * 10)"
    then have "sort_key question_id (questions d) = [] \<or>
      (1 \<le> get_page request \<and>
       int (length (sort_key question_id (questions d))) \<le> (get_page request - 1) * 10)"
      by auto
    then have "paginate_questions request (sort_key question_id (questions d)) = []"
      by (rule paginate_questions_empty)
    then show "get_questions d request = Abort 404"
      by (simp add: get_questions_def)
  }
qed

theorem questions_in_a_category_no_404_witness:
  "category_by_id (sample_db []) 1 = Inr (Some \<lparr>category_id = 1, category_type = ''Science''\<rparr>) \<and>
   questions_in_a_category (sample_db []) None 1 =
     Returns (Category_Questions_Response [] 0 ''Science'') \<and>
   get_questions (sample_db []) None = Abort 404 \<and>
   category_by_id (sample_db [1, 2]) 1 = Inr (Some \<lparr>category_id = 1, category_type = ''Science''\<rparr>) \<and>
   questions_in_a_category (sample_db [1, 2]) (Some 2) 1 =
     Returns (Category_Questions_Response [] 2 ''Science'') \<and>
   get_questions (sample_db [1, 2]) (Some 2) = Abort 404"
proof -
  have a: "category_by_id (sample_db []) 1 =
      Inr (Some \<lparr>category_id = 1, category_type = ''Science''\<rparr>)"
    by (simp add: category_by_id_def sample_db_def)
  have b: "category_by_id (sample_db [1, 2]) 1 =
      Inr (Some \<lparr>category_id = 1, category_type = ''Science''\<rparr>)"
    by (simp add: category_by_id_def sample_db_def)
  have c: "questionsInCat (sample_db []) 1 = []" "questions (sample_db []) = []"
    by (simp_all add: questionsInCat_def sample_db_def)
  have d: "length (questionsInCat (sample_db [1, 2]) 1) = 2"
    "length (questions (sample_db [1, 2])) = 2"
    by (simp_all add: questionsInCat_def sample_db_def sample_question_def str_def digit_char_def)
  show ?thesis
    using a b
      questions_in_a_category_no_404 [OF a, of None]
      questions_in_a_category_no_404 [OF b, of "Some 2"]
    by (simp add: c d get_page_def)
qed

section \<open>Deleting a question\<close>

lemma one_or_none_Some: "one_or_none xs = Inr (Some x) \<longleftrightarrow> xs = [x]"
  by (cases xs rule: one_or_none.cases) auto

lemma one_or_none_None: "one_or_none xs = Inr None \<longleftrightarrow> xs = []"
  by (cases xs rule: one_or_none.cases) auto

lemma question_by_id_Some:
  assumes "question_by_id d i = Inr (Some q)"
  shows "question_id q = i"
proof -
  have "filter (\<lambda>q. question_id q = i) (questions d) = [q]"
    using assms by (simp add: question_by_id_def one_or_none_Some)
  then have "q \<in> set (filter (\<lambda>q. question_id q = i) (questions d))" by simp
  then show ?thesis by simp
qed

lemma question_by_id_delete:
  "question_by_id (delete q d) (question_id q) = Inr None"
  by (simp add: question_by_id_def delete_def one_or_none_None filter_empty_conv)

text \<open>
  Claim C9. Deleting a question that exists succeeds, after which the lookup of its id
  finds nothing and deleting it again aborts with 404; deleting an id that does not
  exist aborts with 404 and leaves the table as it is.
\<close>

theorem delete_a_question_then_fetch:
  "(question_by_id d i = Inr (Some q) \<longrightarrow>
      delete_a_question d i = (Returns Success_Response, delete q d) \<and>
      question_by_id (delete q d) i = Inr None \<and>
      fst (delete_a_question (delete q d) i) = Abort 404) \<and>
   (question_by_id d i = Inr None \<longrightarrow> delete_a_question d i = (Abort 404, d))"
proof (intro conjI impI)
  assume q: "question_by_id d i = Inr (Some q)"
  then show "delete_a_question d i = (Returns Success_Response, delete q d)"
    by (simp add: delete_a_question_def)
  have "question_id q = i" using q by (rule question_by_id_Some)
  then show gone: "question_by_id (delete q d) i = Inr None"
    using question_by_id_delete [of q d] by simp
  then show "fst (delete_a_question (delete q d) i) = Abort 404"
    by (simp add: delete_a_question_def)
next
  assume "question_by_id d i = Inr None"
  then show "delete_a_question d i = (Abort 404, d)"
    by (simp add: delete_a_question_def)
qed

theorem delete_a_question_then_fetch_witness:
  "question_by_id (sample_db [1, 2]) 2 = Inr (Some (sample_question 2)) \<and>
   delete_a_question (sample_db [1, 2]) 2 = (Returns Success_Response, sample_db [1]) \<and>
   question_by_id (sample_db [1]) 2 = Inr None \<and>
   fst (delete_a_question (sample_db [1]) 2) = Abort 404 \<and>
   question_by_id (sample_db [1, 2]) 5 = Inr None \<and>
   delete_a_question (sample_db [1, 2]) 5 = (Abort 404, sample_db [1, 2])"
proof -
  have a: "question_by_id (sample_db [1, 2]) 2 = Inr (Some (sample_question 2))"
    by (simp add: question_by_id_def sample_db_def sample_question_def)
  have b: "question_by_id (sample_db [1, 2]) 5 = Inr None"
    by (simp add: question_by_id_def sample_db_def sample_question_def)
  have c: "delete (sample_question 2) (sample_db [1, 2]) = sample_db [1]"
    by (simp add: delete_def sample_db_def sample_question_def)
  show ?thesis
    using a b delete_a_question_then_fetch [of "sample_db [1, 2]" 2 "sample_question 2"]
      delete_a_question_then_fetch [of "sample_db [1, 2]" 5 "sample_question 2"]
    by (simp add: c)
qed

section \<open>Adding a question and searching\<close>

text \<open>
  Claim C5. A request that takes the creating branch (its search term is absent or
  empty) and lacks the question or the answer is answered with 422, and the table is
  as it was.
\<close>

theorem add_question_missing_field:
  "\<not> truthy (search_term body) \<Longrightarrow> newQuestion body = None \<or> newAnswer body = None \<Longrightarrow>
   add_question d request body = (Abort 422, d)"
  by (auto simp: add_question_def)

theorem add_question_missing_field_witness:
  "\<not> truthy (search_term \<lparr>newQuestion = None, newAnswer = Some (PStr ''Carver''),
        newCategory = Some (PInt 1), newDifficulty = Some (PInt 2), search_term = None\<rparr>) \<and>
   add_question (sample_db [1]) None
     \<lparr>newQuestion = None, newAnswer = Some (PStr ''Carver''),
      newCategory = Some (PInt 1), newDifficulty = Some (PInt 2), search_term = None\<rparr> =
     (Abort 422, sample_db [1])"
  using add_question_missing_field [of
      "\<lparr>newQuestion = None, newAnswer = Some (PStr ''Carver''),
        newCategory = Some (PInt 1), newDifficulty = Some (PInt 2), search_term = None\<rparr>"
      "sample_db [1]" None]
  by simp

subsection \<open>What the pattern of the search matches\<close>

lemma like_any: "like [CHR ''%''] s"
  by (induction s) simp_all

lemma like_prefix:
  "CHR ''%'' \<notin> set t \<Longrightarrow> CHR ''_'' \<notin> set t \<Longrightarrow> like (t @ [CHR ''%'']) s \<longleftrightarrow> prefix t s"
proof (induction t arbitrary: s)
  case Nil
  show ?case by (simp add: like_any)
next
  case (Cons p ps)
  then show ?case by (cases s) auto
qed

lemma like_percent: "like (CHR ''%'' # p) s \<longleftrightarrow> (\<exists>s'. suffix s' s \<and> like p s')"
proof (induction s)
  case Nil
  show ?case by simp
next
  case (Cons c cs)
  then show ?case by (auto simp: suffix_Cons)
qed

lemma like_contains:
  assumes "CHR ''%'' \<notin> set t" and "CHR ''_'' \<notin> set t"
  shows "like (CHR ''%'' # t @ [CHR ''%'']) s \<longleftrightarrow> sublist t s"
  using assms by (auto simp: like_percent like_prefix sublist_altdef')

lemma of_char_lower_char:
  "(of_char (lower_char c) :: nat) =
     (if 65 \<le> (of_char c :: nat) \<and> (of_char c :: nat) \<le> 90 then of_char c + 32 else of_char c)"
  by (simp add: lower_char_def Let_def)

lemma lower_char_percent: "lower_char c = CHR ''%'' \<longleftrightarrow> c = CHR ''%''"
proof
  assume "lower_char c = CHR ''%''"
  then have "(of_char (lower_char c) :: nat) = of_char CHR ''%''" by simp
  then have "(of_char c :: nat) = of_char CHR ''%''"
    by (simp add: of_char_lower_char split: if_splits)
  then show "c = CHR ''%''" by (simp only: of_char_eq_iff)
next
  assume "c = CHR ''%''"
  then show "lower_char c = CHR ''%''" by (simp add: lower_char_def)
qed

lemma lower_char_underscore: "lower_char c = CHR ''_'' \<longleftrightarrow> c = CHR ''_''"
proof
  assume "lower_char c = CHR ''_''"
  then have "(of_char (lower_char c) :: nat) = of_char CHR ''_''" by simp
  then have "(of_char c :: nat) = of_char CHR ''_''"
    by (simp add: of_char_lower_char split: if_splits)
  then show "c = CHR ''_''" by (simp only: of_char_eq_iff)
next
  assume "c = CHR ''_''"
  then show "lower_char c = CHR ''_''" by (simp add: lower_char_def)
qed

lemma lower_wildcard_free:
  "CHR ''%'' \<in> set (lower t) \<longleftrightarrow> CHR ''%'' \<in> set t"
  "CHR ''_'' \<in> set (lower t) \<longleftrightarrow> CHR ''_'' \<in> set t"
  by (induction t)
    (simp_all add: lower_def lower_char_percent lower_char_underscore
      eq_commute [of "CHR ''%''"] eq_commute [of "CHR ''_''"])

lemma ilike_contains:
  assumes "CHR ''%'' \<notin> set t" and "CHR ''_'' \<notin> set t"
  shows "ilike s (CHR ''%'' # t @ [CHR ''%'']) \<longleftrightarrow> sublist (lower t) (lower s)"
proof -
  have "lower (CHR ''%'' # t @ [CHR ''%'']) = CHR ''%'' # lower t @ [CHR ''%'']"
    by (simp add: lower_def lower_char_percent)
  moreover have "CHR ''%'' \<notin> set (lower t)" "CHR ''_'' \<notin> set (lower t)"
    using assms by (simp_all add: lower_wildcard_free)
  ultimately show ?thesis
    by (simp add: ilike_def like_contains)
qed

text \<open>
  Claim C7, as stated: the search returns exactly the questions whose text contains
  the search term without regard to case, and 404 when there is none. The search term
  \<^verbatim>\<open>_\<close> is no part of the text of the stored question, and the search returns that
  question: in the pattern the character stands for any one character.
\<close>

theorem search_wildcard_counterexample:
  "add_question (sample_db [1]) None
     \<lparr>newQuestion = None, newAnswer = None, newCategory = None, newDifficulty = None,
      search_term = Some (PStr ''_'')\<rparr> =
     (Returns (Search_Response [format (sample_question 1)] 1), sample_db [1]) \<and>
   \<not> sublist (lower ''_'') (lower (question (sample_question 1)))"
  by code_simp

text \<open>
  Claim C7, amended. For an ASCII search term that is not empty and holds none of the
  characters \<^verbatim>\<open>%\<close>, \<^verbatim>\<open>_\<close> and backslash, over questions whose texts are ASCII, the
  questions found are exactly those whose text contains the term without regard to
  the case of the ASCII letters; the search returns the requested page of them with
  their number, and aborts with 404 when there is none.
\<close>

theorem search_plain:
  "s \<noteq> [] \<Longrightarrow> CHR ''%'' \<notin> set s \<Longrightarrow> CHR ''_'' \<notin> set s \<Longrightarrow> CHR 0x5C \<notin> set s \<Longrightarrow>
   ascii s \<Longrightarrow> list_all (\<lambda>q. ascii (question q)) (questions d) \<Longrightarrow>
   search_term body = Some (PStr s) \<Longrightarrow>
   matching_questions d s =
     filter (\<lambda>q. sublist (lower s) (lower (question q))) (questions d) \<and>
   add_question d request body =
     (if matching_questions d s = [] then (Abort 404, d)
      else (Returns (Search_Response (paginate_questions request (matching_questions d s))
              (length (matching_questions d s))), d))"
  by (simp add: add_question_def matching_questions_def ilike_contains Let_def)

theorem search_plain_witness:
  "''WHO'' \<noteq> [] \<and> CHR ''%'' \<notin> set ''WHO'' \<and> CHR ''_'' \<notin> set ''WHO'' \<and>
   CHR 0x5C \<notin> set ''WHO'' \<and> ascii ''WHO'' \<and> ascii ''xyz'' \<and>
   list_all (\<lambda>q. ascii (question q)) (questions (sample_db [1])) \<and>
   add_question (sample_db [1]) None
     \<lparr>newQuestion = None, newAnswer = None, newCategory = None, newDifficulty = None,
      search_term = Some (PStr ''WHO'')\<rparr> =
     (Returns (Search_Response [format (sample_question 1)] 1), sample_db [1]) \<and>
   add_question (sample_db [1]) None
     \<lparr>newQuestion = None, newAnswer = None, newCategory = None, newDifficulty = None,
      search_term = Some (PStr ''xyz'')\<rparr> = (Abort 404, sample_db [1])"
proof -
  have a: "matching_questions (sample_db [1]) ''WHO'' = [sample_question 1]"
    by code_simp
  have b: "matching_questions (sample_db [1]) ''xyz'' = []"
    by code_simp
  have c: "paginate_questions None [sample_question 1] = [format (sample_question 1)]"
    by (simp add: paginate_questions_def get_page_def QUESTIONS_PER_PAGE_def py_slice_def)
  have e: "ascii ''WHO''" "ascii ''xyz''"
    "list_all (\<lambda>q. ascii (question q)) (questions (sample_db [1]))"
    by code_simp+
  show ?thesis
    using e
      search_plain [of "''WHO''" "sample_db [1]"
        "\<lparr>newQuestion = None, newAnswer = None, newCategory = None, newDifficulty = None,
          search_term = Some (PStr ''WHO'')\<rparr>" None]
      search_plain [of "''xyz''" "sample_db [1]"
        "\<lparr>newQuestion = None, newAnswer = None, newCategory = None, newDifficulty = None,
          search_term = Some (PStr ''xyz'')\<rparr>" None]
    by (simp add: a b c)
qed

end
